theory Spec2Isabelle
  imports Complex_Main "HOL-Library.Signed_Division"
begin

section \<open>Data model (the three SQLAlchemy models of app.py)\<close>

text \<open>
  A Python object that has not been flushed yet has no primary key; the key is given by the
  database when the session commits. The transient object is the parent record
  (\<open>new_user\<close>, \<open>new_flight\<close>, \<open>new_booking\<close>), the stored row is its extension by the
  primary key. Strings are byte lists; a text that is not ASCII in the source is written as
  its UTF-8 bytes. The columns \<open>image\<close>, \<open>description\<close> and \<open>route\<close> of Flight are
  nullable, all other columns are \<open>nullable=False\<close>.
\<close>

record new_user =
  username :: string
  password_hash :: string

record user = new_user +
  id_user :: int

text \<open>
  Datetimes are kept to whole seconds (microsecond = 0): the seed flights are written that
  way, and the admin form parses the format year-month-day hour:minute:second.
\<close>

record datetime =
  year :: int
  month :: int
  day :: int
  hour :: int
  minute :: int
  second :: int

record new_flight =
  departure_city :: string
  arrival_city :: string
  image_col :: "string option"
  description :: "string option"
  route :: "string option"
  departure_datetime :: datetime
  arrival_datetime :: datetime
  price :: real

record flight = new_flight +
  id_flight :: int

record new_booking =
  flight_id :: int
  user_id :: int
  full_name :: string
  email :: string
  phone :: string

record booking = new_booking +
  id_booking :: int

section \<open>The collaborators: database, session, password hashing, datetime\<close>

text \<open>
  The primary keys are \<open>INTEGER PRIMARY KEY\<close> columns of SQLite: a new row gets 1 in an
  empty table and the largest key plus one otherwise.
\<close>

fun next_rowid :: "int list \<Rightarrow> int" where
  "next_rowid [] = 1"
| "next_rowid (k # ks) = fold max ks k + 1"

definition add_user :: "new_user \<Rightarrow> user list \<Rightarrow> user list" where
  "add_user u tbl =
     tbl @ [\<lparr>username = username u, password_hash = password_hash u,
             id_user = next_rowid (map id_user tbl)\<rparr>]"

definition add_flight :: "new_flight \<Rightarrow> flight list \<Rightarrow> flight list" where
  "add_flight f tbl =
     tbl @ [\<lparr>departure_city = departure_city f, arrival_city = arrival_city f,
             image_col = image_col f, description = description f, route = route f,
             departure_datetime = departure_datetime f,
             arrival_datetime = arrival_datetime f, price = price f,
             id_flight = next_rowid (map id_flight tbl)\<rparr>]"

definition add_booking :: "new_booking \<Rightarrow> booking list \<Rightarrow> booking list" where
  "add_booking b tbl =
     tbl @ [\<lparr>flight_id = flight_id b, user_id = user_id b, full_name = full_name b,
             email = email b, phone = phone b,
             id_booking = next_rowid (map id_booking tbl)\<rparr>]"

text \<open>The messages passed to \<open>flash\<close>; the source gives them in Russian.\<close>

datatype flash_message =
    Username_taken          \<comment> \<open>"the user name is already taken"\<close>
  | Registration_ok         \<comment> \<open>"registration succeeded, you can log in now"\<close>
  | Invalid_credentials     \<comment> \<open>"wrong user name or password"\<close>
  | Fill_all_fields         \<comment> \<open>"please fill in all the fields"\<close>
  | Flight_booked           \<comment> \<open>"the flight has been booked"\<close>
  | Please_log_in           \<comment> \<open>the message of Flask-Login's \<open>unauthorized\<close>\<close>

text \<open>
  The state a request handler sees and changes: the three tables, the user id that
  Flask-Login keeps in the session, and the flashed messages.
\<close>

record app_state =
  user_table :: "user list"
  flight_table :: "flight list"
  booking_table :: "booking list"
  session_user_id :: "int option"
  flashes :: "flash_message list"

datatype http_method = GET | POST

record request =
  http_method_of :: http_method
  form :: "(string \<times> string) list"

datatype endpoint =
    Ep_index | Ep_register | Ep_login | Ep_bookings | Ep_flight_details int

datatype page =
    Index_html "flight list"
  | About_html
  | Register_html
  | Login_html
  | Flight_details_html flight int int
  | Bookings_html "booking list"
  | Admin_html              \<comment> \<open>a page of the Flask-Admin panel\<close>

text \<open>
  \<open>Abort 400\<close> is the BadRequestKeyError of \<open>request.form[key]\<close> on a missing key,
  \<open>Abort 404\<close> is \<open>get_or_404\<close>, \<open>Abort 405\<close> a method the route does not list,
  \<open>Abort 500\<close> an uncaught Python exception (the server error of Flask).
\<close>

datatype response = Redirect endpoint | Render page | Abort nat

type_synonym view = "app_state \<Rightarrow> app_state \<times> response"

definition flash :: "flash_message \<Rightarrow> app_state \<Rightarrow> app_state" where
  "flash m s = s\<lparr>flashes := flashes s @ [m]\<rparr>"

text \<open>
  werkzeug.security is a library outside the repository. Its two functions are parameters
  of the model; \<open>generate_password_hash\<close> takes the random salt it draws as an argument.
\<close>

record werkzeug =
  generate_password_hash :: "string \<Rightarrow> string \<Rightarrow> string"
  check_password_hash :: "string \<Rightarrow> string \<Rightarrow> bool"

text \<open>\<open>User.set_password\<close> gives the value it assigns to \<open>self.password_hash\<close>.\<close>

definition set_password :: "werkzeug \<Rightarrow> string \<Rightarrow> string \<Rightarrow> string" where
  "set_password W salt password = generate_password_hash W salt password"

definition check_password :: "werkzeug \<Rightarrow> user \<Rightarrow> string \<Rightarrow> bool" where
  "check_password W u password = check_password_hash W (password_hash u) password"

text \<open>
  \<open>Model.query.get(k)\<close> and \<open>Model.query.filter_by(...).first()\<close>. SQLite binds
  a key only when it is a signed 64-bit integer; for any other key the driver raises
  OverflowError and no row is found. The keys of stored rows are always in this range.
\<close>

definition sqlite_integer :: "int \<Rightarrow> bool" where
  "sqlite_integer k = (- (2 ^ 63) \<le> k \<and> k < 2 ^ 63)"

definition get_user :: "app_state \<Rightarrow> int \<Rightarrow> user option" where
  "get_user s k = find (\<lambda>u. id_user u = k) (user_table s)"

definition get_flight :: "app_state \<Rightarrow> int \<Rightarrow> flight option" where
  "get_flight s k =
     (if sqlite_integer k then find (\<lambda>f. id_flight f = k) (flight_table s) else None)"

text \<open>
  \<open>Flight.query.get_or_404(k)\<close>: the flight, or the answer that ends the request: 404
  when no flight has the key, 500 when the key is no signed 64-bit integer and the
  OverflowError of the driver is not caught.
\<close>

definition get_flight_or_404 :: "app_state \<Rightarrow> int \<Rightarrow> response + flight" where
  "get_flight_or_404 s k =
     (if sqlite_integer k
      then (case get_flight s k of None \<Rightarrow> Inl (Abort 404) | Some fl \<Rightarrow> Inr fl)
      else Inl (Abort 500))"

definition user_by_username :: "app_state \<Rightarrow> string \<Rightarrow> user option" where
  "user_by_username s name = find (\<lambda>u. username u = name) (user_table s)"

text \<open>\<open>load_user\<close> and Flask-Login's \<open>current_user\<close>: None is the anonymous user.\<close>

definition load_user :: "app_state \<Rightarrow> int \<Rightarrow> user option" where
  "load_user s uid = get_user s uid"

definition current_user :: "app_state \<Rightarrow> user option" where
  "current_user s = (case session_user_id s of None \<Rightarrow> None | Some uid \<Rightarrow> load_user s uid)"

definition is_authenticated :: "app_state \<Rightarrow> bool" where
  "is_authenticated s = (current_user s \<noteq> None)"

definition login_user :: "user \<Rightarrow> app_state \<Rightarrow> app_state" where
  "login_user u s = s\<lparr>session_user_id := Some (id_user u)\<rparr>"

definition logout_user :: "app_state \<Rightarrow> app_state" where
  "logout_user s = s\<lparr>session_user_id := None\<rparr>"

text \<open>
  The decorator \<open>login_required\<close>, with \<open>login_manager.login_view = 'login'\<close>: an
  anonymous caller gets the login message and a redirect to the login view.
\<close>

definition login_required :: "view \<Rightarrow> view" where
  "login_required v s =
     (if is_authenticated s then v s else (flash Please_log_in s, Redirect Ep_login))"

subsection \<open>datetime subtraction, as the standard library computes it\<close>

text \<open>
  The constructor of datetime raises on a month outside 1 to 12, so the table of
  \<open>days_before_month\<close> is always read in range.
\<close>

definition is_leap :: "int \<Rightarrow> bool" where
  "is_leap y = (y mod 4 = 0 \<and> (y mod 100 \<noteq> 0 \<or> y mod 400 = 0))"

definition days_before_year :: "int \<Rightarrow> int" where
  "days_before_year y =
     (let p = y - 1 in p * 365 + p div 4 - p div 100 + p div 400)"

definition days_before_month :: "int \<Rightarrow> int \<Rightarrow> int" where
  "days_before_month y m =
     [0, 0, 31, 59, 90, 120, 151, 181, 212, 243, 273, 304, 334] ! nat m
       + (if m > 2 \<and> is_leap y then 1 else 0)"

definition toordinal :: "datetime \<Rightarrow> int" where
  "toordinal d = days_before_year (year d) + days_before_month (year d) (month d) + day d"

text \<open>
  \<open>(a - b).total_seconds()\<close>. The float it returns is a whole number below \<open>2^53\<close> for
  datetimes without microseconds, so the integer is exact, and so are \<open>int\<close>, \<open>//\<close> and
  \<open>%\<close> on it.
\<close>

definition total_seconds :: "datetime \<Rightarrow> datetime \<Rightarrow> int" where
  "total_seconds a b =
     (toordinal a - toordinal b) * 86400
       + ((second a + minute a * 60 + hour a * 3600)
          - (second b + minute b * 60 + hour b * 3600))"

section \<open>The seed data of add_default_flights\<close>

text \<open>The Russian texts of the two seed flights, as UTF-8 bytes.\<close>

definition city_moscow :: string where \<comment> \<open>Moscow\<close>
  "city_moscow =
     [CHR 0xD0, CHR 0x9C, CHR 0xD0, CHR 0xBE, CHR 0xD1, CHR 0x81, CHR 0xD0, CHR 0xBA, CHR 0xD0,
      CHR 0xB2, CHR 0xD0, CHR 0xB0]"

definition city_saint_petersburg :: string where \<comment> \<open>Saint Petersburg\<close>
  "city_saint_petersburg =
     [CHR 0xD0, CHR 0xA1, CHR 0xD0, CHR 0xB0, CHR 0xD0, CHR 0xBD, CHR 0xD0, CHR 0xBA, CHR 0xD1,
      CHR 0x82, CHR 0x2D, CHR 0xD0, CHR 0x9F, CHR 0xD0, CHR 0xB5, CHR 0xD1, CHR 0x82, CHR 0xD0,
      CHR 0xB5, CHR 0xD1, CHR 0x80, CHR 0xD0, CHR 0xB1, CHR 0xD1, CHR 0x83, CHR 0xD1, CHR 0x80,
      CHR 0xD0, CHR 0xB3]"

definition city_yekaterinburg :: string where \<comment> \<open>Yekaterinburg\<close>
  "city_yekaterinburg =
     [CHR 0xD0, CHR 0x95, CHR 0xD0, CHR 0xBA, CHR 0xD0, CHR 0xB0, CHR 0xD1, CHR 0x82, CHR 0xD0,
      CHR 0xB5, CHR 0xD1, CHR 0x80, CHR 0xD0, CHR 0xB8, CHR 0xD0, CHR 0xBD, CHR 0xD0, CHR 0xB1,
      CHR 0xD1, CHR 0x83, CHR 0xD1, CHR 0x80, CHR 0xD0, CHR 0xB3]"

definition description_mow_spb :: string where \<comment> \<open>"Direct flight from Moscow to Saint Petersburg."\<close>
  "description_mow_spb =
     [CHR 0xD0, CHR 0x9F, CHR 0xD1, CHR 0x80, CHR 0xD1, CHR 0x8F, CHR 0xD0, CHR 0xBC, CHR 0xD0,
      CHR 0xBE, CHR 0xD0, CHR 0xB9, CHR 0x20, CHR 0xD1, CHR 0x80, CHR 0xD0, CHR 0xB5, CHR 0xD0,
      CHR 0xB9, CHR 0xD1, CHR 0x81, CHR 0x20, CHR 0xD0, CHR 0xB8, CHR 0xD0, CHR 0xB7, CHR 0x20,
      CHR 0xD0, CHR 0x9C, CHR 0xD0, CHR 0xBE, CHR 0xD1, CHR 0x81, CHR 0xD0, CHR 0xBA, CHR 0xD0,
      CHR 0xB2, CHR 0xD1, CHR 0x8B, CHR 0x20, CHR 0xD0, CHR 0xB2, CHR 0x20, CHR 0xD0, CHR 0xA1,
      CHR 0xD0, CHR 0xB0, CHR 0xD0, CHR 0xBD, CHR 0xD0, CHR 0xBA, CHR 0xD1, CHR 0x82, CHR 0x2D,
      CHR 0xD0, CHR 0x9F, CHR 0xD0, CHR 0xB5, CHR 0xD1, CHR 0x82, CHR 0xD0, CHR 0xB5, CHR 0xD1,
      CHR 0x80, CHR 0xD0, CHR 0xB1, CHR 0xD1, CHR 0x83, CHR 0xD1, CHR 0x80, CHR 0xD0, CHR 0xB3,
      CHR 0x2E]"

definition description_mow_ekb :: string where \<comment> \<open>"Direct flight from Moscow to Yekaterinburg."\<close>
  "description_mow_ekb =
     [CHR 0xD0, CHR 0x9F, CHR 0xD1, CHR 0x80, CHR 0xD1, CHR 0x8F, CHR 0xD0, CHR 0xBC, CHR 0xD0,
      CHR 0xBE, CHR 0xD0, CHR 0xB9, CHR 0x20, CHR 0xD1, CHR 0x80, CHR 0xD0, CHR 0xB5, CHR 0xD0,
      CHR 0xB9, CHR 0xD1, CHR 0x81, CHR 0x20, CHR 0xD0, CHR 0xB8, CHR 0xD0, CHR 0xB7, CHR 0x20,
      CHR 0xD0, CHR 0x9C, CHR 0xD0, CHR 0xBE, CHR 0xD1, CHR 0x81, CHR 0xD0, CHR 0xBA, CHR 0xD0,
      CHR 0xB2, CHR 0xD1, CHR 0x8B, CHR 0x20, CHR 0xD0, CHR 0xB2, CHR 0x20, CHR 0xD0, CHR 0x95,
      CHR 0xD0, CHR 0xBA, CHR 0xD0, CHR 0xB0, CHR 0xD1, CHR 0x82, CHR 0xD0, CHR 0xB5, CHR 0xD1,
      CHR 0x80, CHR 0xD0, CHR 0xB8, CHR 0xD0, CHR 0xBD, CHR 0xD0, CHR 0xB1, CHR 0xD1, CHR 0x83,
      CHR 0xD1, CHR 0x80, CHR 0xD0, CHR 0xB3, CHR 0x2E]"

definition mk_datetime :: "int \<Rightarrow> int \<Rightarrow> int \<Rightarrow> int \<Rightarrow> int \<Rightarrow> int \<Rightarrow> datetime" where
  "mk_datetime y mo d h mi sec =
     \<lparr>year = y, month = mo, day = d, hour = h, minute = mi, second = sec\<rparr>"

definition default_flights :: "new_flight list" where
  "default_flights =
     [\<lparr>departure_city = city_moscow, arrival_city = city_saint_petersburg,
       image_col = Some ''static/uploads/moscow_spb.jpg'',
       description = Some description_mow_spb, route = Some ''MOW-SPB'',
       departure_datetime = mk_datetime 2024 5 10 10 0 0,
       arrival_datetime = mk_datetime 2024 5 10 11 30 0,
       price = 3500\<rparr>,
      \<lparr>departure_city = city_moscow, arrival_city = city_yekaterinburg,
       image_col = Some ''static/uploads/moscow_ekb.jpg'',
       description = Some description_mow_ekb, route = Some ''MOW-EKB'',
       departure_datetime = mk_datetime 2024 5 12 14 0 0,
       arrival_datetime = mk_datetime 2024 5 12 17 30 0,
       price = 4200\<rparr>]"

section \<open>The views of app.py\<close>

definition ALLOWED_EXTENSIONS :: "string set" where
  "ALLOWED_EXTENSIONS = {''png'', ''jpg'', ''jpeg''}"

text \<open>
  \<open>str.lower\<close> on the letters A to Z; no other character has a lower case among the
  letters of the three extensions.
\<close>

definition lower_char :: "char \<Rightarrow> char" where
  "lower_char c =
     (case map_of (zip ''ABCDEFGHIJKLMNOPQRSTUVWXYZ'' ''abcdefghijklmnopqrstuvwxyz'') c of
        Some l \<Rightarrow> l
      | None \<Rightarrow> c)"

definition lower :: "string \<Rightarrow> string" where
  "lower s = map lower_char s"

text \<open>\<open>filename.rsplit('.', 1)[1]\<close>, for a file name that has a dot.\<close>

definition rsplit_dot_1 :: "string \<Rightarrow> string" where
  "rsplit_dot_1 filename = rev (takeWhile (\<lambda>c. c \<noteq> CHR ''.'') (rev filename))"

definition allowed_file :: "string \<Rightarrow> bool" where
  "allowed_file filename =
     (CHR ''.'' \<in> set filename \<and> lower (rsplit_dot_1 filename) \<in> ALLOWED_EXTENSIONS)"

definition add_all :: "new_flight list \<Rightarrow> flight list \<Rightarrow> flight list" where
  "add_all fs tbl = fold add_flight fs tbl"

definition first_flight :: "app_state \<Rightarrow> flight option" where
  "first_flight s = (case flight_table s of [] \<Rightarrow> None | f # _ \<Rightarrow> Some f)"

definition add_default_flights :: "app_state \<Rightarrow> app_state" where
  "add_default_flights s =
     (if first_flight s = None
      then s\<lparr>flight_table := add_all default_flights (flight_table s)\<rparr>
      else s)"

definition index :: view where
  "index s = (let s' = add_default_flights s in (s', Render (Index_html (flight_table s'))))"

definition about :: view where
  "about s = (s, Render About_html)"

definition register :: "werkzeug \<Rightarrow> string \<Rightarrow> request \<Rightarrow> view" where
  "register W salt req s =
     (if http_method_of req = POST then
        (case map_of (form req) ''username'' of
           None \<Rightarrow> (s, Abort 400)
         | Some name \<Rightarrow>
        (case map_of (form req) ''password'' of
           None \<Rightarrow> (s, Abort 400)
         | Some password \<Rightarrow>
        (case user_by_username s name of
           Some existing_user \<Rightarrow> (flash Username_taken s, Redirect Ep_register)
         | None \<Rightarrow>
             (let u = \<lparr>username = name, password_hash = set_password W salt password\<rparr>;
                  s' = s\<lparr>user_table := add_user u (user_table s)\<rparr>
              in (flash Registration_ok s', Redirect Ep_login)))))
      else (s, Render Register_html))"

definition login :: "werkzeug \<Rightarrow> request \<Rightarrow> view" where
  "login W req s =
     (if http_method_of req = POST then
        (case map_of (form req) ''username'' of
           None \<Rightarrow> (s, Abort 400)
         | Some name \<Rightarrow>
        (case map_of (form req) ''password'' of
           None \<Rightarrow> (s, Abort 400)
         | Some password \<Rightarrow>
        (case user_by_username s name of
           Some u \<Rightarrow>
             (if check_password W u password
              then (login_user u s, Redirect Ep_index)
              else (flash Invalid_credentials s, Redirect Ep_login))
         | None \<Rightarrow> (flash Invalid_credentials s, Redirect Ep_login))))
      else (s, Render Login_html))"

definition logout :: view where
  "logout = login_required (\<lambda>s. (logout_user s, Redirect Ep_index))"

text \<open>
  \<open>duration.total_seconds()\<close> is a whole number here, so \<open>int\<close> leaves it as it is;
  \<open>//\<close> and \<open>%\<close> are \<open>div\<close> and \<open>mod\<close>, which round toward minus infinity as
  Python's do.
\<close>

definition flight_details :: "int \<Rightarrow> view" where
  "flight_details fid s =
     (case get_flight_or_404 s fid of
        Inl r \<Rightarrow> (s, r)
      | Inr fl \<Rightarrow>
          (let duration = total_seconds (arrival_datetime fl) (departure_datetime fl);
               duration_hours = duration div 3600;
               duration_minutes = (duration mod 3600) div 60
           in (s, Render (Flight_details_html fl duration_hours duration_minutes))))"

text \<open>
  The route of \<open>book_flight\<close> lists POST only; the body runs under \<open>login_required\<close>.
  \<open>current_user.id\<close> on the anonymous user would be an AttributeError.
\<close>

definition book_flight_body :: "int \<Rightarrow> request \<Rightarrow> view" where
  "book_flight_body fid req s =
     (case get_flight_or_404 s fid of
        Inl r \<Rightarrow> (s, r)
      | Inr fl \<Rightarrow>
     (case map_of (form req) ''full_name'' of
        None \<Rightarrow> (s, Abort 400)
      | Some fname \<Rightarrow>
     (case map_of (form req) ''email'' of
        None \<Rightarrow> (s, Abort 400)
      | Some mail \<Rightarrow>
     (case map_of (form req) ''phone'' of
        None \<Rightarrow> (s, Abort 400)
      | Some ph \<Rightarrow>
          (if fname = [] \<or> mail = [] \<or> ph = []
           then (flash Fill_all_fields s, Redirect (Ep_flight_details fid))
           else
             (case current_user s of
                None \<Rightarrow> (s, Abort 500)
              | Some cu \<Rightarrow>
                  (let b = \<lparr>flight_id = id_flight fl, user_id = id_user cu,
                            full_name = fname, email = mail, phone = ph\<rparr>;
                       s' = s\<lparr>booking_table := add_booking b (booking_table s)\<rparr>
                   in (flash Flight_booked s', Redirect Ep_bookings))))))))"

definition book_flight :: "int \<Rightarrow> request \<Rightarrow> view" where
  "book_flight fid req s =
     (if http_method_of req = POST
      then login_required (book_flight_body fid req) s
      else (s, Abort 405))"

definition user_bookings :: "app_state \<Rightarrow> user \<Rightarrow> booking list" where
  "user_bookings s u = filter (\<lambda>b. user_id b = id_user u) (booking_table s)"

definition bookings :: view where
  "bookings =
     login_required (\<lambda>s. case current_user s of
                           None \<Rightarrow> (s, Abort 500)
                         | Some cu \<Rightarrow> (s, Render (Bookings_html (user_bookings s cu))))"

subsection \<open>The admin panel\<close>

text \<open>
  The test both admin classes make on \<open>current_user\<close>. The record operations themselves
  belong to Flask-Admin: a view of the panel is a parameter \<open>v\<close>. Flask-Admin calls
  \<open>is_accessible\<close> before every view of a ModelView and returns
  \<open>inaccessible_callback\<close> when it is false.
\<close>

definition current_username :: "app_state \<Rightarrow> string option" where
  "current_username s = map_option username (current_user s)"

definition MyAdminIndexView_index :: "view \<Rightarrow> view" where
  "MyAdminIndexView_index super_index s =
     (if \<not> is_authenticated s \<or> current_username s \<noteq> Some ''admin''
      then (s, Redirect Ep_login)
      else super_index s)"

definition is_accessible :: "app_state \<Rightarrow> bool" where
  "is_accessible s = (is_authenticated s \<and> current_username s = Some ''admin'')"

definition inaccessible_callback :: response where
  "inaccessible_callback = Redirect Ep_login"

definition MyModelView_view :: "view \<Rightarrow> view" where
  "MyModelView_view v s = (if is_accessible s then v s else (s, inaccessible_callback))"

datatype field_class = ImageUploadField

definition form_overrides :: "(string \<times> field_class) list" where
  "form_overrides = [(''image_path'', ImageUploadField)]"

text \<open>The column names of the two models registered with \<open>admin.add_view\<close>.\<close>

definition Flight_columns :: "string list" where
  "Flight_columns =
     [''id'', ''departure_city'', ''arrival_city'', ''image'', ''description'', ''route'',
      ''departure_datetime'', ''arrival_datetime'', ''price'']"

definition Booking_columns :: "string list" where
  "Booking_columns = [''id'', ''flight_id'', ''user_id'', ''full_name'', ''email'', ''phone'']"

section \<open>What the specification names, for comparison with the views\<close>

text \<open>
  The specification speaks of fields that are empty after trimming. \<open>spec_strip\<close> follows
  its words: Python's \<open>str.strip\<close> on the ASCII white space characters.
\<close>

definition is_space :: "char \<Rightarrow> bool" where
  "is_space c = (c \<in> {CHR '' '', CHR 0x09, CHR 0x0A, CHR 0x0B, CHR 0x0C, CHR 0x0D})"

definition spec_strip :: "string \<Rightarrow> string" where
  "spec_strip s = rev (dropWhile is_space (rev (dropWhile is_space s)))"

text \<open>
  The specification speaks of a division that truncates toward zero. These two follow its
  words, with the truncating division and remainder \<open>sdiv\<close> and \<open>smod\<close>.
\<close>

definition spec_duration_hours :: "int \<Rightarrow> int" where
  "spec_duration_hours secs = secs sdiv 3600"

definition spec_duration_minutes :: "int \<Rightarrow> int" where
  "spec_duration_minutes secs = (secs smod 3600) sdiv 60"

text \<open>
  Modelled from the spec: the hash function behind \<open>generate_password_hash\<close> of
  werkzeug.security, a library that is not part of the repository. The specification calls
  it a salted, slow hash function, never plaintext: its result is never the password
  itself, and it depends on the salt, so one password hashed under two salts gives two
  results. How long the function runs has no counterpart here.
\<close>

definition spec_salted_hash :: "werkzeug \<Rightarrow> bool" where
  "spec_salted_hash W =
     (\<forall>salt password.
        generate_password_hash W salt password \<noteq> password \<and>
        (\<forall>salt'. salt' \<noteq> salt \<longrightarrow>
           generate_password_hash W salt' password \<noteq> generate_password_hash W salt password))"

section \<open>Concrete states on which the views are run\<close>

text \<open>
  A stand-in for werkzeug.security, only to run the views on concrete inputs: the stored
  text is the salt, a dollar sign and the password reversed.
\<close>

definition toy_werkzeug :: werkzeug where
  "toy_werkzeug =
     \<lparr>generate_password_hash = (\<lambda>salt password. salt @ ''$'' @ rev password),
      check_password_hash =
        (\<lambda>h password. rev (takeWhile (\<lambda>c. c \<noteq> CHR ''$'') (rev h)) = rev password)\<rparr>"

definition empty_state :: app_state where
  "empty_state =
     \<lparr>user_table = [], flight_table = [], booking_table = [],
      session_user_id = None, flashes = []\<rparr>"

definition post :: "(string \<times> string) list \<Rightarrow> request" where
  "post kvs = \<lparr>http_method_of = POST, form = kvs\<rparr>"

definition credentials :: "string \<Rightarrow> string \<Rightarrow> request" where
  "credentials name password = post [(''username'', name), (''password'', password)]"

definition contact :: "string \<Rightarrow> string \<Rightarrow> string \<Rightarrow> request" where
  "contact fname mail ph = post [(''full_name'', fname), (''email'', mail), (''phone'', ph)]"

text \<open>
  The state after the first visit of the home page and the registration of admin, alice
  and bob, in this order; \<open>as_user k\<close> is the same state with user \<open>k\<close> logged in.
\<close>

definition demo_state :: app_state where
  "demo_state =
     fst (register toy_werkzeug ''s3'' (credentials ''bob'' ''pw3'')
       (fst (register toy_werkzeug ''s2'' (credentials ''alice'' ''pw1'')
         (fst (register toy_werkzeug ''s1'' (credentials ''admin'' ''root'')
           (fst (index empty_state)))))))"

definition as_user :: "int \<Rightarrow> app_state" where
  "as_user k = demo_state\<lparr>session_user_id := Some k\<rparr>"

text \<open>The state after alice has booked the first seed flight.\<close>

definition booked_state :: app_state where
  "booked_state = fst (book_flight 1 (contact ''Alice A'' ''a@x.com'' ''123'') (as_user 2))"

text \<open>A flight that arrives half an hour before it leaves, as the admin form permits.\<close>

definition backwards_flight :: flight where
  "backwards_flight =
     \<lparr>departure_city = ''A'', arrival_city = ''B'', image_col = None, description = None,
      route = None, departure_datetime = mk_datetime 2024 5 10 11 30 0,
      arrival_datetime = mk_datetime 2024 5 10 11 0 0, price = 100, id_flight = 1\<rparr>"

definition backwards_state :: app_state where
  "backwards_state = empty_state\<lparr>flight_table := [backwards_flight]\<rparr>"

text \<open>An operation of the admin panel, to run the gate on: delete every booking.\<close>

definition delete_all_bookings :: view where
  "delete_all_bookings s = (s\<lparr>booking_table := []\<rparr>, Render Admin_html)"

section \<open>Basic facts\<close>

lemma get_flight_Some_range:
  assumes "get_flight s k = Some fl"
  shows "sqlite_integer k"
  using assms by (simp add: get_flight_def split: if_splits)

lemma get_flight_or_404_Some:
  assumes "get_flight s k = Some fl"
  shows "get_flight_or_404 s k = Inr fl"
  using assms get_flight_Some_range [OF assms] by (simp add: get_flight_or_404_def)

lemma register_taken:
  assumes "http_method_of req = POST"
    and "map_of (form req) ''username'' = Some u"
    and "map_of (form req) ''password'' = Some p"
    and "user_by_username s u = Some x"
  shows "register W salt req s = (flash Username_taken s, Redirect Ep_register)"
  using assms by (simp add: register_def)

lemma register_fresh:
  assumes "http_method_of req = POST"
    and "map_of (form req) ''username'' = Some u"
    and "map_of (form req) ''password'' = Some p"
    and "user_by_username s u = None"
  shows "register W salt req s =
           (flash Registration_ok
              (s\<lparr>user_table := user_table s @
                   [\<lparr>username = u, password_hash = generate_password_hash W salt p,
                     id_user = next_rowid (map id_user (user_table s))\<rparr>]\<rparr>),
            Redirect Ep_login)"
  using assms by (simp add: register_def add_user_def set_password_def Let_def)

lemma user_by_username_None:
  "user_by_username s u = None \<longleftrightarrow> (\<forall>x \<in> set (user_table s). username x \<noteq> u)"
  by (auto simp: user_by_username_def find_None_iff)

lemma user_by_username_Some:
  "user_by_username s u = Some x \<Longrightarrow> x \<in> set (user_table s) \<and> username x = u"
  by (auto simp: user_by_username_def find_Some_iff)

lemma user_table_flash [simp]: "user_table (flash m s) = user_table s"
  by (simp add: flash_def)

lemma booking_table_flash [simp]: "booking_table (flash m s) = booking_table s"
  by (simp add: flash_def)

lemma flight_table_flash [simp]: "flight_table (flash m s) = flight_table s"
  by (simp add: flash_def)

lemma session_flash [simp]: "session_user_id (flash m s) = session_user_id s"
  by (simp add: flash_def)

lemma count_username_fresh:
  assumes "\<forall>x \<in> set xs. username x \<noteq> u"
  shows "filter (\<lambda>x. username x = u) xs = []"
  using assms by (induction xs) auto

lemma count_username_distinct:
  assumes "distinct (map username xs)" and "x \<in> set xs" and "username x = u"
  shows "filter (\<lambda>y. username y = u) xs = [x]"
  using assms
proof (induction xs)
  case Nil
  then show ?case by simp
next
  case (Cons a xs)
  show ?case
  proof (cases "a = x")
    case True
    with Cons.prems have "\<forall>y \<in> set xs. username y \<noteq> u" by (auto simp: image_iff)
    then have "filter (\<lambda>y. username y = u) xs = []" by (rule count_username_fresh)
    with True Cons.prems show ?thesis by simp
  next
    case False
    with Cons.prems have mem: "x \<in> set xs" by simp
    with Cons.prems have "username a \<noteq> u" by force
    moreover have "filter (\<lambda>y. username y = u) xs = [x]"
      using Cons.IH Cons.prems mem by simp
    ultimately show ?thesis by simp
  qed
qed

lemma find_snoc:
  "find P (xs @ [y]) = (case find P xs of Some x \<Rightarrow> Some x | None \<Rightarrow> if P y then Some y else None)"
  by (induction xs) auto

lemma register_twice:
  assumes "http_method_of req = POST"
    and "map_of (form req) ''username'' = Some u"
    and "map_of (form req) ''password'' = Some p"
    and "http_method_of req2 = POST"
    and "map_of (form req2) ''username'' = Some u"
    and "map_of (form req2) ''password'' = Some p2"
    and "distinct (map username (user_table s))"
  shows "snd (register W salt2 req2 (fst (register W salt req s))) = Redirect Ep_register \<and>
         length (filter (\<lambda>x. username x = u)
           (user_table (fst (register W salt2 req2 (fst (register W salt req s)))))) = 1"
proof (cases "user_by_username s u")
  case None
  define n where "n = \<lparr>username = u, password_hash = generate_password_hash W salt p,
                        id_user = next_rowid (map id_user (user_table s))\<rparr>"
  define s1 where "s1 = flash Registration_ok (s\<lparr>user_table := user_table s @ [n]\<rparr>)"
  have first: "register W salt req s = (s1, Redirect Ep_login)"
    using register_fresh [OF assms(1-3) None] by (simp add: s1_def n_def)
  have tbl: "user_table s1 = user_table s @ [n]" by (simp add: s1_def)
  from None have fresh: "\<forall>x \<in> set (user_table s). username x \<noteq> u"
    by (simp add: user_by_username_None)
  with None have "user_by_username s1 u = Some n"
    by (simp add: user_by_username_def tbl find_snoc n_def)
  then have second: "register W salt2 req2 s1 = (flash Username_taken s1, Redirect Ep_register)"
    by (rule register_taken [OF assms(4-6)])
  have "filter (\<lambda>x. username x = u) (user_table s1) = [n]"
    using count_username_fresh [OF fresh] by (simp add: tbl n_def)
  with first second show ?thesis by simp
next
  case (Some x)
  have first: "register W salt req s = (flash Username_taken s, Redirect Ep_register)"
    by (rule register_taken [OF assms(1-3) Some])
  have "user_by_username (flash Username_taken s) u = Some x"
    using Some by (simp add: user_by_username_def)
  then have second: "register W salt2 req2 (flash Username_taken s) =
      (flash Username_taken (flash Username_taken s), Redirect Ep_register)"
    by (rule register_taken [OF assms(4-6)])
  from Some have "x \<in> set (user_table s)" "username x = u"
    by (simp_all add: user_by_username_Some)
  with assms(7) have "filter (\<lambda>y. username y = u) (user_table s) = [x]"
    by (rule count_username_distinct)
  with first second show ?thesis by simp
qed

subsection \<open>The concrete states\<close>

lemma demo_users:
  "user_table demo_state =
     [\<lparr>username = ''admin'', password_hash = ''s1$toor'', id_user = 1\<rparr>,
      \<lparr>username = ''alice'', password_hash = ''s2$1wp'', id_user = 2\<rparr>,
      \<lparr>username = ''bob'', password_hash = ''s3$3wp'', id_user = 3\<rparr>]"
  by (simp add: demo_state_def register_def credentials_def post_def user_by_username_def
      index_def add_default_flights_def first_flight_def empty_state_def Let_def
      add_user_def set_password_def toy_werkzeug_def flash_def)

lemma demo_flights: "flight_table demo_state = add_all default_flights []"
  by (simp add: demo_state_def register_def credentials_def post_def user_by_username_def
      index_def add_default_flights_def first_flight_def empty_state_def Let_def
      add_user_def flash_def)

lemma demo_bookings: "booking_table demo_state = []"
  by (simp add: demo_state_def register_def credentials_def post_def user_by_username_def
      index_def add_default_flights_def first_flight_def empty_state_def Let_def
      add_user_def flash_def)


section \<open>Registration\<close>

lemma toy_salted_hash: "spec_salted_hash toy_werkzeug"
proof -
  have "salt @ ''$'' @ rev password \<noteq> password" for salt password :: string
  proof
    assume "salt @ ''$'' @ rev password = password"
    then have "length (salt @ ''$'' @ rev password) = length password" by simp
    then show False by simp
  qed
  then show ?thesis by (simp add: spec_salted_hash_def toy_werkzeug_def)
qed

text \<open>
  C3: for a POST of username \<open>u\<close> and password \<open>p\<close>, \<open>register\<close> answers with the
  duplicate-username message and leaves the user table as it is when a user whose
  username equals \<open>u\<close> exists (equality of strings, so upper and lower case differ);
  otherwise it appends exactly one user, named \<open>u\<close>, whose \<open>password_hash\<close> is the
  result of \<open>generate_password_hash\<close> on \<open>p\<close> with a salt. With the hash function the
  specification describes (\<open>spec_salted_hash\<close>), the stored text is never \<open>p\<close> itself
  and differs from the hash of \<open>p\<close> under any other salt. After two registrations of the
  same username, on a table whose usernames are unique, exactly one user has that username.
\<close>

theorem register_duplicate_username:
  assumes "http_method_of req = POST"
    and "map_of (form req) ''username'' = Some u"
    and "map_of (form req) ''password'' = Some p"
  shows "((\<exists>x \<in> set (user_table s). username x = u) \<longrightarrow>
            register W salt req s = (flash Username_taken s, Redirect Ep_register) \<and>
            user_table (fst (register W salt req s)) = user_table s) \<and>
         ((\<forall>x \<in> set (user_table s). username x \<noteq> u) \<longrightarrow>
            (\<exists>n. register W salt req s =
                   (flash Registration_ok (s\<lparr>user_table := user_table s @ [n]\<rparr>),
                    Redirect Ep_login) \<and>
                 username n = u \<and>
                 password_hash n = generate_password_hash W salt p \<and>
                 (spec_salted_hash W \<longrightarrow>
                    password_hash n \<noteq> p \<and>
                    (\<forall>salt'. salt' \<noteq> salt \<longrightarrow>
                       password_hash n \<noteq> generate_password_hash W salt' p)))) \<and>
         (distinct (map username (user_table s)) \<longrightarrow>
            (\<forall>req2 salt2 p2.
               http_method_of req2 = POST \<and>
               map_of (form req2) ''username'' = Some u \<and>
               map_of (form req2) ''password'' = Some p2 \<longrightarrow>
               snd (register W salt2 req2 (fst (register W salt req s)))
                 = Redirect Ep_register \<and>
               length (filter (\<lambda>x. username x = u)
                 (user_table (fst (register W salt2 req2 (fst (register W salt req s))))))
                 = 1))"
proof (intro conjI impI allI)
  assume "\<exists>x \<in> set (user_table s). username x = u"
  then obtain x where "user_by_username s u = Some x"
    by (cases "user_by_username s u") (auto simp: user_by_username_None)
  then have r: "register W salt req s = (flash Username_taken s, Redirect Ep_register)"
    by (rule register_taken [OF assms])
  then show "register W salt req s = (flash Username_taken s, Redirect Ep_register)" .
  from r show "user_table (fst (register W salt req s)) = user_table s" by simp
next
  assume "\<forall>x \<in> set (user_table s). username x \<noteq> u"
  then have none: "user_by_username s u = None" by (simp add: user_by_username_None)
  define n where "n = \<lparr>username = u, password_hash = generate_password_hash W salt p,
                        id_user = next_rowid (map id_user (user_table s))\<rparr>"
  have stored: "register W salt req s =
                  (flash Registration_ok (s\<lparr>user_table := user_table s @ [n]\<rparr>),
                   Redirect Ep_login)"
    using register_fresh [OF assms none] by (simp add: n_def)
  have name: "username n = u" and hash: "password_hash n = generate_password_hash W salt p"
    by (simp_all add: n_def)
  have not_plain: "password_hash n \<noteq> p" if "spec_salted_hash W"
    using that by (simp add: hash spec_salted_hash_def)
  have salted: "password_hash n \<noteq> generate_password_hash W salt' p"
    if "spec_salted_hash W" and "salt' \<noteq> salt" for salt'
  proof -
    from that have "generate_password_hash W salt' p \<noteq> generate_password_hash W salt p"
      by (simp add: spec_salted_hash_def)
    then show ?thesis by (simp add: hash)
  qed
  from stored name hash not_plain salted
  show "\<exists>n. register W salt req s =
               (flash Registration_ok (s\<lparr>user_table := user_table s @ [n]\<rparr>),
                Redirect Ep_login) \<and>
             username n = u \<and> password_hash n = generate_password_hash W salt p \<and>
             (spec_salted_hash W \<longrightarrow>
                password_hash n \<noteq> p \<and>
                (\<forall>salt'. salt' \<noteq> salt \<longrightarrow>
                   password_hash n \<noteq> generate_password_hash W salt' p))"
    by blast
next
  fix req2 :: request and salt2 p2 :: string
  assume d: "distinct (map username (user_table s))"
    and r2: "http_method_of req2 = POST \<and>
             map_of (form req2) ''username'' = Some u \<and>
             map_of (form req2) ''password'' = Some p2"
  from r2 have m2: "http_method_of req2 = POST"
    and u2: "map_of (form req2) ''username'' = Some u"
    and pw2: "map_of (form req2) ''password'' = Some p2" by simp_all
  from register_twice [OF assms m2 u2 pw2 d]
  have both: "snd (register W salt2 req2 (fst (register W salt req s))) = Redirect Ep_register \<and>
         length (filter (\<lambda>x. username x = u)
           (user_table (fst (register W salt2 req2 (fst (register W salt req s)))))) = 1"
    by simp
  from both show "snd (register W salt2 req2 (fst (register W salt req s))) = Redirect Ep_register"
    by simp
  from both show "length (filter (\<lambda>x. username x = u)
           (user_table (fst (register W salt2 req2 (fst (register W salt req s)))))) = 1"
    by simp
qed

theorem register_duplicate_username_witness:
  "register toy_werkzeug ''s9'' (credentials ''alice'' ''other'') demo_state
     = (flash Username_taken demo_state, Redirect Ep_register) \<and>
   user_table (fst (register toy_werkzeug ''s9'' (credentials ''alice'' ''other'') demo_state))
     = user_table demo_state \<and>
   spec_salted_hash toy_werkzeug \<and>
   (\<exists>n. register toy_werkzeug ''s2'' (credentials ''Alice'' ''pw1'') demo_state
          = (flash Registration_ok (demo_state\<lparr>user_table := user_table demo_state @ [n]\<rparr>),
             Redirect Ep_login) \<and>
        username n = ''Alice'' \<and> password_hash n = ''s2$1wp'' \<and>
        password_hash n \<noteq> ''pw1'' \<and>
        password_hash n \<noteq> generate_password_hash toy_werkzeug ''s3'' ''pw1'') \<and>
   length (filter (\<lambda>x. username x = ''Alice'')
     (user_table (fst (register toy_werkzeug ''s9'' (credentials ''Alice'' ''other'')
        (fst (register toy_werkzeug ''s2'' (credentials ''Alice'' ''pw1'') demo_state)))))) = 1"
proof -
  have dup: "\<exists>x \<in> set (user_table demo_state). username x = ''alice''"
    by (simp add: demo_users)
  have fresh: "\<forall>x \<in> set (user_table demo_state). username x \<noteq> ''Alice''"
    by (simp add: demo_users)
  have uniq: "distinct (map username (user_table demo_state))"
    by (simp add: demo_users)
  have form_a: "http_method_of (credentials ''alice'' ''other'') = POST"
    "map_of (form (credentials ''alice'' ''other'')) ''username'' = Some ''alice''"
    "map_of (form (credentials ''alice'' ''other'')) ''password'' = Some ''other''"
    by (simp_all add: credentials_def post_def)
  have form_b: "http_method_of (credentials ''Alice'' ''pw1'') = POST"
    "map_of (form (credentials ''Alice'' ''pw1'')) ''username'' = Some ''Alice''"
    "map_of (form (credentials ''Alice'' ''pw1'')) ''password'' = Some ''pw1''"
    by (simp_all add: credentials_def post_def)
  have form_c: "http_method_of (credentials ''Alice'' ''other'') = POST \<and>
    map_of (form (credentials ''Alice'' ''other'')) ''username'' = Some ''Alice'' \<and>
    map_of (form (credentials ''Alice'' ''other'')) ''password'' = Some ''other''"
    by (simp add: credentials_def post_def)
  note a = register_duplicate_username [OF form_a, of demo_state toy_werkzeug "''s9''"]
  note b = register_duplicate_username [OF form_b, of demo_state toy_werkzeug "''s2''"]
  from a dup
  have first: "register toy_werkzeug ''s9'' (credentials ''alice'' ''other'') demo_state
       = (flash Username_taken demo_state, Redirect Ep_register)"
    and same: "user_table (fst (register toy_werkzeug ''s9'' (credentials ''alice'' ''other'')
       demo_state)) = user_table demo_state"
    by blast+
  from b fresh toy_salted_hash
  obtain n where n: "register toy_werkzeug ''s2'' (credentials ''Alice'' ''pw1'') demo_state
          = (flash Registration_ok (demo_state\<lparr>user_table := user_table demo_state @ [n]\<rparr>),
             Redirect Ep_login)"
    "username n = ''Alice''"
    "password_hash n = generate_password_hash toy_werkzeug ''s2'' ''pw1''"
    "password_hash n \<noteq> ''pw1''"
    "\<And>salt'. salt' \<noteq> ''s2'' \<Longrightarrow>
       password_hash n \<noteq> generate_password_hash toy_werkzeug salt' ''pw1''"
    by blast
  from n(3) have h: "password_hash n = ''s2$1wp''" by (simp add: toy_werkzeug_def)
  have other: "password_hash n \<noteq> generate_password_hash toy_werkzeug ''s3'' ''pw1''"
    by (rule n(5)) simp
  from b uniq form_c
  have once: "length (filter (\<lambda>x. username x = ''Alice'')
     (user_table (fst (register toy_werkzeug ''s9'' (credentials ''Alice'' ''other'')
        (fst (register toy_werkzeug ''s2'' (credentials ''Alice'' ''pw1'') demo_state)))))) = 1"
    by blast
  from n(1,2,4) h other
  have ex: "\<exists>n. register toy_werkzeug ''s2'' (credentials ''Alice'' ''pw1'') demo_state
          = (flash Registration_ok (demo_state\<lparr>user_table := user_table demo_state @ [n]\<rparr>),
             Redirect Ep_login) \<and>
        username n = ''Alice'' \<and> password_hash n = ''s2$1wp'' \<and>
        password_hash n \<noteq> ''pw1'' \<and>
        password_hash n \<noteq> generate_password_hash toy_werkzeug ''s3'' ''pw1''"
    by blast
  from first same toy_salted_hash ex once show ?thesis by (intro conjI)
qed

text \<open>
  C10: \<open>register\<close> checks nothing but the duplicate username. For every username that
  no stored user has and every password, the empty string included for either, it succeeds
  and stores a user with exactly that username.
\<close>

theorem register_accepts_any_credentials:
  assumes "http_method_of req = POST"
    and "map_of (form req) ''username'' = Some u"
    and "map_of (form req) ''password'' = Some p"
    and "user_by_username s u = None"
  shows "\<exists>n. register W salt req s =
               (flash Registration_ok (s\<lparr>user_table := user_table s @ [n]\<rparr>),
                Redirect Ep_login) \<and>
             username n = u \<and>
             user_by_username (fst (register W salt req s)) u = Some n"
proof -
  define n where "n = \<lparr>username = u, password_hash = generate_password_hash W salt p,
                        id_user = next_rowid (map id_user (user_table s))\<rparr>"
  have r: "register W salt req s =
             (flash Registration_ok (s\<lparr>user_table := user_table s @ [n]\<rparr>), Redirect Ep_login)"
    using register_fresh [OF assms] by (simp add: n_def)
  have "user_by_username (fst (register W salt req s)) u = Some n"
    using assms(4) by (simp add: r user_by_username_def find_snoc n_def)
  with r show ?thesis by (intro exI [of _ n]) (simp add: n_def)
qed

theorem register_accepts_any_credentials_witness:
  "user_by_username demo_state '''' = None \<and>
   (\<exists>n. register toy_werkzeug ''s4'' (credentials '''' '''') demo_state =
          (flash Registration_ok (demo_state\<lparr>user_table := user_table demo_state @ [n]\<rparr>),
           Redirect Ep_login) \<and>
        username n = '''' \<and>
        user_by_username (fst (register toy_werkzeug ''s4'' (credentials '''' '''') demo_state)) ''''
          = Some n)"
  using register_accepts_any_credentials
          [of "credentials '''' ''''" "''''" "''''" demo_state toy_werkzeug "''s4''"]
  by (simp add: credentials_def post_def user_by_username_def demo_users)

section \<open>Login\<close>

lemma demo_session: "session_user_id demo_state = None"
  by (simp add: demo_state_def register_def credentials_def post_def user_by_username_def
      index_def add_default_flights_def first_flight_def empty_state_def Let_def
      add_user_def flash_def)

lemma find_by_key_distinct:
  assumes "distinct (map f xs)" and "x \<in> set xs"
  shows "find (\<lambda>y. f y = f x) xs = Some x"
  using assms by (induction xs) (auto simp: image_iff)

lemma login_failure:
  assumes "http_method_of req = POST"
    and "map_of (form req) ''username'' = Some u"
    and "map_of (form req) ''password'' = Some p"
    and "user_by_username s u = None \<or>
         (\<exists>x. user_by_username s u = Some x \<and> \<not> check_password W x p)"
  shows "login W req s = (flash Invalid_credentials s, Redirect Ep_login)"
  using assms by (auto simp: login_def)

lemma login_success:
  assumes "http_method_of req = POST"
    and "map_of (form req) ''username'' = Some u"
    and "map_of (form req) ''password'' = Some p"
    and "user_by_username s u = Some x" and "check_password W x p"
  shows "login W req s = (login_user x s, Redirect Ep_index)"
  using assms by (simp add: login_def)

text \<open>
  C5: for a POST of username \<open>u\<close> and password \<open>p\<close>, \<open>login\<close> gives one and the same
  answer (the same message, the same redirect, the same state) when no user is named \<open>u\<close>
  and when the password check fails, and the session is as before; when the user exists and
  the check succeeds, the session holds that user's id, and \<open>current_user\<close> is that user
  when the primary keys are unique.
\<close>

theorem login_generic_failure:
  assumes "http_method_of req = POST"
    and "map_of (form req) ''username'' = Some u"
    and "map_of (form req) ''password'' = Some p"
  shows "((user_by_username s u = None \<or>
           (\<exists>x. user_by_username s u = Some x \<and> \<not> check_password W x p)) \<longrightarrow>
            login W req s = (flash Invalid_credentials s, Redirect Ep_login) \<and>
            session_user_id (fst (login W req s)) = session_user_id s) \<and>
         (\<forall>x. user_by_username s u = Some x \<and> check_password W x p \<longrightarrow>
            login W req s = (login_user x s, Redirect Ep_index) \<and>
            session_user_id (fst (login W req s)) = Some (id_user x) \<and>
            (distinct (map id_user (user_table s)) \<longrightarrow>
               current_user (fst (login W req s)) = Some x))"
proof (intro conjI impI allI)
  assume f: "user_by_username s u = None \<or>
             (\<exists>x. user_by_username s u = Some x \<and> \<not> check_password W x p)"
  from login_failure [OF assms f]
  show "login W req s = (flash Invalid_credentials s, Redirect Ep_login)" .
  then show "session_user_id (fst (login W req s)) = session_user_id s" by simp
next
  fix x :: user
  assume ok: "user_by_username s u = Some x \<and> check_password W x p"
  then have r: "login W req s = (login_user x s, Redirect Ep_index)"
    using login_success [OF assms] by simp
  then show "login W req s = (login_user x s, Redirect Ep_index)" .
  from r show "session_user_id (fst (login W req s)) = Some (id_user x)"
    by (simp add: login_user_def)
  assume d: "distinct (map id_user (user_table s))"
  from ok have "x \<in> set (user_table s)" using user_by_username_Some by blast
  with d have "find (\<lambda>y. id_user y = id_user x) (user_table s) = Some x"
    by (rule find_by_key_distinct)
  then show "current_user (fst (login W req s)) = Some x"
    by (simp add: r login_user_def current_user_def load_user_def get_user_def)
qed

theorem login_generic_failure_witness:
  "login toy_werkzeug (credentials ''alice'' ''wrong'') demo_state
     = (flash Invalid_credentials demo_state, Redirect Ep_login) \<and>
   login toy_werkzeug (credentials ''nobody'' ''wrong'') demo_state
     = (flash Invalid_credentials demo_state, Redirect Ep_login) \<and>
   session_user_id (fst (login toy_werkzeug (credentials ''alice'' ''wrong'') demo_state)) = None \<and>
   session_user_id (fst (login toy_werkzeug (credentials ''alice'' ''pw1'') demo_state)) = Some 2 \<and>
   current_user (fst (login toy_werkzeug (credentials ''alice'' ''pw1'') demo_state))
     = Some \<lparr>username = ''alice'', password_hash = ''s2$1wp'', id_user = 2\<rparr>"
  using login_generic_failure
          [of "credentials ''alice'' ''wrong''" "''alice''" "''wrong''" demo_state toy_werkzeug]
        login_generic_failure
          [of "credentials ''nobody'' ''wrong''" "''nobody''" "''wrong''" demo_state toy_werkzeug]
        login_generic_failure
          [of "credentials ''alice'' ''pw1''" "''alice''" "''pw1''" demo_state toy_werkzeug]
  by (auto simp: credentials_def post_def user_by_username_def demo_users check_password_def
      toy_werkzeug_def demo_session login_user_def current_user_def load_user_def get_user_def)

section \<open>Booking\<close>

lemma current_user_cong:
  assumes "user_table t = user_table s" and "session_user_id t = session_user_id s"
  shows "current_user t = current_user s"
  using assms by (simp add: current_user_def load_user_def get_user_def split: option.splits)

lemma current_user_id:
  assumes "current_user s = Some cu"
  shows "session_user_id s = Some (id_user cu)"
  using assms
  by (auto simp: current_user_def load_user_def get_user_def find_Some_iff
      split: option.splits)

lemma get_flight_id:
  assumes "get_flight s fid = Some fl"
  shows "id_flight fl = fid"
  using assms by (auto simp: get_flight_def find_Some_iff split: if_splits)



lemma book_flight_rejects:
  assumes "http_method_of req = POST" and "is_authenticated s"
    and "get_flight s fid = Some fl"
    and "map_of (form req) ''full_name'' = Some fname"
    and "map_of (form req) ''email'' = Some mail"
    and "map_of (form req) ''phone'' = Some ph"
    and "fname = [] \<or> mail = [] \<or> ph = []"
  shows "book_flight fid req s = (flash Fill_all_fields s, Redirect (Ep_flight_details fid))"
  using assms get_flight_or_404_Some [OF assms(3)]
  by (auto simp: book_flight_def login_required_def book_flight_body_def)

lemma book_flight_accepts:
  assumes "http_method_of req = POST" and "current_user s = Some cu"
    and "get_flight s fid = Some fl"
    and "map_of (form req) ''full_name'' = Some fname"
    and "map_of (form req) ''email'' = Some mail"
    and "map_of (form req) ''phone'' = Some ph"
    and "fname \<noteq> []" and "mail \<noteq> []" and "ph \<noteq> []"
  shows "book_flight fid req s =
           (flash Flight_booked
              (s\<lparr>booking_table := booking_table s @
                   [\<lparr>flight_id = id_flight fl, user_id = id_user cu, full_name = fname,
                     email = mail, phone = ph,
                     id_booking = next_rowid (map id_booking (booking_table s))\<rparr>]\<rparr>),
            Redirect Ep_bookings)"
  using assms get_flight_or_404_Some [OF assms(3)]
  by (simp add: book_flight_def login_required_def book_flight_body_def is_authenticated_def
      add_booking_def Let_def)

text \<open>Every way \<open>book_flight\<close> can answer with the redirect to the booking list.\<close>

lemma book_flight_redirect_bookings:
  assumes "book_flight fid req s = (s', Redirect Ep_bookings)"
  shows "\<exists>fl cu fname mail ph.
           get_flight s fid = Some fl \<and> current_user s = Some cu \<and>
           fname \<noteq> [] \<and> mail \<noteq> [] \<and> ph \<noteq> [] \<and>
           s' = flash Flight_booked
                  (s\<lparr>booking_table := booking_table s @
                       [\<lparr>flight_id = id_flight fl, user_id = id_user cu, full_name = fname,
                         email = mail, phone = ph,
                         id_booking = next_rowid (map id_booking (booking_table s))\<rparr>]\<rparr>)"
  using assms
  by (auto simp: book_flight_def login_required_def book_flight_body_def get_flight_or_404_def add_booking_def
      Let_def split: if_splits option.splits)

text \<open>
  The booking table after \<open>book_flight\<close> is the table before, or the table before with
  one row more, and that row has no empty contact field.
\<close>

lemma book_flight_atomic:
  "booking_table (fst (book_flight fid req s)) = booking_table s \<or>
   (\<exists>b. booking_table (fst (book_flight fid req s)) = booking_table s @ [b] \<and>
        full_name b \<noteq> [] \<and> email b \<noteq> [] \<and> phone b \<noteq> [])"
  by (auto simp: book_flight_def login_required_def book_flight_body_def get_flight_or_404_def add_booking_def
      Let_def split: if_splits option.splits)

lemma bookings_of_current_user:
  assumes "current_user s = Some cu"
  shows "bookings s = (s, Render (Bookings_html (user_bookings s cu)))"
  using assms by (simp add: bookings_def login_required_def is_authenticated_def)




text \<open>
  C4: the specification speaks of fields that are empty after trimming, but \<open>book_flight\<close> tests
  the raw field: a full name of one blank is stored.
\<close>

theorem book_flight_blank_name_counterexample:
  "spec_strip '' '' = [] \<and>
   book_flight 1 (contact '' '' ''a@x.com'' ''123'') (as_user 2) =
     (flash Flight_booked
        ((as_user 2)\<lparr>booking_table :=
           [\<lparr>flight_id = 1, user_id = 2, full_name = '' '', email = ''a@x.com'',
             phone = ''123'', id_booking = 1\<rparr>]\<rparr>),
      Redirect Ep_bookings)"
  by (simp add: spec_strip_def is_space_def contact_def post_def as_user_def
      book_flight_def login_required_def book_flight_body_def get_flight_or_404_def is_authenticated_def
      current_user_def load_user_def get_user_def get_flight_def sqlite_integer_def demo_users demo_flights
      demo_bookings add_all_def default_flights_def add_flight_def add_booking_def Let_def)

text \<open>
  C4, amended: when a logged-in user posts the form for a stored flight and one of
  full_name, email and phone is the empty string, \<open>book_flight\<close> flashes the
  fill-all-fields message, redirects to the page of the flight and leaves the booking
  table as it is. For every request, the booking table afterwards is the one before or
  the one before with a single row more, whose three contact fields are not empty.
\<close>

theorem book_flight_empty_field:
  assumes "http_method_of req = POST" and "is_authenticated s"
    and "get_flight s fid = Some fl"
    and "map_of (form req) ''full_name'' = Some fname"
    and "map_of (form req) ''email'' = Some mail"
    and "map_of (form req) ''phone'' = Some ph"
    and "fname = [] \<or> mail = [] \<or> ph = []"
  shows "book_flight fid req s = (flash Fill_all_fields s, Redirect (Ep_flight_details fid)) \<and>
         booking_table (fst (book_flight fid req s)) = booking_table s \<and>
         (\<forall>r t. booking_table (fst (book_flight fid r t)) = booking_table t \<or>
            (\<exists>b. booking_table (fst (book_flight fid r t)) = booking_table t @ [b] \<and>
                 full_name b \<noteq> [] \<and> email b \<noteq> [] \<and> phone b \<noteq> []))"
  using book_flight_rejects [OF assms] book_flight_atomic [of fid] by simp

theorem book_flight_empty_field_witness:
  "is_authenticated (as_user 2) \<and> get_flight (as_user 2) 1 \<noteq> None \<and>
   book_flight 1 (contact [] ''a@x.com'' ''123'') (as_user 2)
     = (flash Fill_all_fields (as_user 2), Redirect (Ep_flight_details 1)) \<and>
   booking_table (fst (book_flight 1 (contact [] ''a@x.com'' ''123'') (as_user 2)))
     = booking_table (as_user 2)"
  using book_flight_empty_field
          [of "contact [] ''a@x.com'' ''123''" "as_user 2" 1 _ "[]" "''a@x.com''" "''123''"]
  by (simp add: contact_def post_def as_user_def is_authenticated_def current_user_def
      load_user_def get_user_def get_flight_def sqlite_integer_def demo_users demo_flights add_all_def
      default_flights_def add_flight_def)

text \<open>
  C1: when \<open>book_flight\<close> succeeds for the logged-in user \<open>A\<close> and the stored flight
  \<open>f\<close>, exactly one booking \<open>b\<close> is appended, with \<open>user_id b = id A\<close> and
  \<open>flight_id b = id f\<close>; the booking list of \<open>A\<close> (the view \<open>bookings\<close>) contains
  \<open>b\<close>, and the booking list of any logged-in user \<open>B\<close> with another id does not.
\<close>

theorem booking_belongs_to_creator:
  assumes "current_user s = Some A" and "get_flight s fid = Some f"
    and "book_flight fid req s = (s', Redirect Ep_bookings)"
  shows "\<exists>b. booking_table s' = booking_table s @ [b] \<and>
             user_id b = id_user A \<and> flight_id b = id_flight f \<and>
             bookings s' = (s', Render (Bookings_html (user_bookings s' A))) \<and>
             b \<in> set (user_bookings s' A) \<and>
             (\<forall>t B. booking_table t = booking_table s' \<and> current_user t = Some B \<and>
                    id_user B \<noteq> id_user A \<longrightarrow>
                    bookings t = (t, Render (Bookings_html (user_bookings t B))) \<and>
                    b \<notin> set (user_bookings t B))"
proof -
  from book_flight_redirect_bookings [OF assms(3)] assms(1,2)
  obtain fname mail ph where
    s': "s' = flash Flight_booked
            (s\<lparr>booking_table := booking_table s @
                 [\<lparr>flight_id = id_flight f, user_id = id_user A, full_name = fname,
                   email = mail, phone = ph,
                   id_booking = next_rowid (map id_booking (booking_table s))\<rparr>]\<rparr>)"
    by auto
  define b where "b = \<lparr>flight_id = id_flight f, user_id = id_user A, full_name = fname,
                        email = mail, phone = ph,
                        id_booking = next_rowid (map id_booking (booking_table s))\<rparr>"
  have tbl: "booking_table s' = booking_table s @ [b]"
    by (simp add: s' b_def)
  have ids: "user_id b = id_user A" "flight_id b = id_flight f"
    by (simp_all add: b_def)
  have "current_user s' = current_user s"
    by (rule current_user_cong) (simp_all add: s')
  with assms(1) have cu: "current_user s' = Some A" by simp
  have listA: "bookings s' = (s', Render (Bookings_html (user_bookings s' A)))"
    by (rule bookings_of_current_user [OF cu])
  have inA: "b \<in> set (user_bookings s' A)"
    by (simp add: user_bookings_def tbl ids)
  have others: "bookings t = (t, Render (Bookings_html (user_bookings t B))) \<and>
                b \<notin> set (user_bookings t B)"
    if "booking_table t = booking_table s' \<and> current_user t = Some B \<and>
        id_user B \<noteq> id_user A" for t B
    using that by (simp add: bookings_of_current_user user_bookings_def ids)
  from tbl ids listA inA others show ?thesis by blast
qed

theorem booking_belongs_to_creator_witness:
  "current_user (as_user 2)
     = Some \<lparr>username = ''alice'', password_hash = ''s2$1wp'', id_user = 2\<rparr> \<and>
   get_flight (as_user 2) 1 = Some (hd (flight_table demo_state)) \<and>
   snd (book_flight 1 (contact ''Alice A'' ''a@x.com'' ''123'') (as_user 2))
     = Redirect Ep_bookings \<and>
   (\<exists>b. booking_table (fst (book_flight 1 (contact ''Alice A'' ''a@x.com'' ''123'') (as_user 2)))
          = booking_table (as_user 2) @ [b] \<and>
        user_id b = 2 \<and> flight_id b = 1 \<and>
        b \<in> set (user_bookings
                  (fst (book_flight 1 (contact ''Alice A'' ''a@x.com'' ''123'') (as_user 2)))
                  \<lparr>username = ''alice'', password_hash = ''s2$1wp'', id_user = 2\<rparr>) \<and>
        b \<notin> set (user_bookings
                  ((fst (book_flight 1 (contact ''Alice A'' ''a@x.com'' ''123'') (as_user 2)))
                     \<lparr>session_user_id := Some 3\<rparr>)
                  \<lparr>username = ''bob'', password_hash = ''s3$3wp'', id_user = 3\<rparr>))"
proof -
  define alice where "alice = \<lparr>username = ''alice'', password_hash = ''s2$1wp'', id_user = 2\<rparr>"
  define bob where "bob = \<lparr>username = ''bob'', password_hash = ''s3$3wp'', id_user = 3\<rparr>"
  define req where "req = contact ''Alice A'' ''a@x.com'' ''123''"
  define s' where "s' = fst (book_flight 1 req (as_user 2))"
  have cu: "current_user (as_user 2) = Some alice"
    by (simp add: as_user_def current_user_def load_user_def get_user_def demo_users alice_def)
  have fl: "get_flight (as_user 2) 1 = Some (hd (flight_table demo_state))"
    by (simp add: as_user_def get_flight_def sqlite_integer_def demo_flights add_all_def default_flights_def
        add_flight_def)
  have "book_flight 1 req (as_user 2) =
          (flash Flight_booked
             ((as_user 2)\<lparr>booking_table := booking_table (as_user 2) @
                [\<lparr>flight_id = id_flight (hd (flight_table demo_state)), user_id = id_user alice,
                  full_name = ''Alice A'', email = ''a@x.com'', phone = ''123'',
                  id_booking = next_rowid (map id_booking (booking_table (as_user 2)))\<rparr>]\<rparr>),
           Redirect Ep_bookings)"
    by (rule book_flight_accepts [OF _ cu fl]) (simp_all add: req_def contact_def post_def)
  then have bk: "book_flight 1 req (as_user 2) = (s', Redirect Ep_bookings)"
    and ut: "user_table s' = user_table demo_state"
    and sn: "snd (book_flight 1 req (as_user 2)) = Redirect Ep_bookings"
    by (simp_all add: s'_def as_user_def)
  from booking_belongs_to_creator [OF cu fl bk]
  obtain b where b: "booking_table s' = booking_table (as_user 2) @ [b]"
    "user_id b = id_user alice" "flight_id b = id_flight (hd (flight_table demo_state))"
    "b \<in> set (user_bookings s' alice)"
    and others: "\<And>t B. booking_table t = booking_table s' \<and> current_user t = Some B \<and>
                    id_user B \<noteq> id_user alice \<Longrightarrow> b \<notin> set (user_bookings t B)"
    by blast
  have "current_user (s'\<lparr>session_user_id := Some 3\<rparr>) = Some bob"
    by (simp add: current_user_def load_user_def get_user_def ut demo_users bob_def)
  then have "b \<notin> set (user_bookings (s'\<lparr>session_user_id := Some 3\<rparr>) bob)"
    by (intro others) (simp add: alice_def bob_def)
  moreover have "id_flight (hd (flight_table demo_state)) = 1"
    by (simp add: demo_flights add_all_def default_flights_def add_flight_def)
  ultimately show ?thesis
    using cu fl sn b unfolding alice_def bob_def req_def s'_def
    by (intro conjI exI [of _ b]) simp_all
qed

section \<open>The admin gate\<close>

lemma is_admin_iff:
  "(is_authenticated s \<and> current_username s = Some ''admin'') \<longleftrightarrow>
   (\<exists>u. current_user s = Some u \<and> username u = ''admin'')"
  by (cases "current_user s") (simp_all add: is_authenticated_def current_username_def)

lemma booked_state_eq:
  "booked_state =
     flash Flight_booked
       ((as_user 2)\<lparr>booking_table :=
          [\<lparr>flight_id = 1, user_id = 2, full_name = ''Alice A'', email = ''a@x.com'',
            phone = ''123'', id_booking = 1\<rparr>]\<rparr>)"
  by (simp add: booked_state_def contact_def post_def as_user_def
      book_flight_def login_required_def book_flight_body_def get_flight_or_404_def is_authenticated_def
      current_user_def load_user_def get_user_def get_flight_def sqlite_integer_def demo_users demo_flights
      demo_bookings add_all_def default_flights_def add_flight_def add_booking_def Let_def)

text \<open>
  C2: the admin index view and every view of the two model views run only when the
  current user is logged in and is named exactly admin; for every other caller, anonymous
  or logged in under another name, the answer is the redirect to the login view and the
  state is the one before, so no record is altered.
\<close>

theorem admin_gate:
  "MyAdminIndexView_index v s =
     (if \<exists>u. current_user s = Some u \<and> username u = ''admin''
      then v s else (s, Redirect Ep_login)) \<and>
   MyModelView_view v s =
     (if \<exists>u. current_user s = Some u \<and> username u = ''admin''
      then v s else (s, Redirect Ep_login))"
  using is_admin_iff [of s]
  by (auto simp: MyAdminIndexView_index_def MyModelView_view_def is_accessible_def
      inaccessible_callback_def)

theorem admin_gate_witness:
  "MyModelView_view delete_all_bookings booked_state = (booked_state, Redirect Ep_login) \<and>
   MyAdminIndexView_index delete_all_bookings booked_state = (booked_state, Redirect Ep_login) \<and>
   MyModelView_view delete_all_bookings (booked_state\<lparr>session_user_id := None\<rparr>)
     = (booked_state\<lparr>session_user_id := None\<rparr>, Redirect Ep_login) \<and>
   booking_table booked_state \<noteq> [] \<and>
   MyModelView_view delete_all_bookings (booked_state\<lparr>session_user_id := Some 1\<rparr>)
     = (booked_state\<lparr>session_user_id := Some 1, booking_table := []\<rparr>, Render Admin_html)"
  using admin_gate [of delete_all_bookings booked_state]
        admin_gate [of delete_all_bookings "booked_state\<lparr>session_user_id := None\<rparr>"]
        admin_gate [of delete_all_bookings "booked_state\<lparr>session_user_id := Some 1\<rparr>"]
  by (simp add: booked_state_eq as_user_def flash_def current_user_def load_user_def
      get_user_def demo_users delete_all_bookings_def)

section \<open>The flight catalogue\<close>

lemma seeded_flights:
  "add_all default_flights [] =
     [\<lparr>departure_city = city_moscow, arrival_city = city_saint_petersburg,
       image_col = Some ''static/uploads/moscow_spb.jpg'',
       description = Some description_mow_spb, route = Some ''MOW-SPB'',
       departure_datetime = mk_datetime 2024 5 10 10 0 0,
       arrival_datetime = mk_datetime 2024 5 10 11 30 0,
       price = 3500, id_flight = 1\<rparr>,
      \<lparr>departure_city = city_moscow, arrival_city = city_yekaterinburg,
       image_col = Some ''static/uploads/moscow_ekb.jpg'',
       description = Some description_mow_ekb, route = Some ''MOW-EKB'',
       departure_datetime = mk_datetime 2024 5 12 14 0 0,
       arrival_datetime = mk_datetime 2024 5 12 17 30 0,
       price = 4200, id_flight = 2\<rparr>]"
  by (simp add: add_all_def default_flights_def add_flight_def)

lemma add_default_flights_empty:
  assumes "flight_table s = []"
  shows "add_default_flights s = s\<lparr>flight_table := add_all default_flights []\<rparr>"
  using assms by (simp add: add_default_flights_def first_flight_def)

lemma add_default_flights_nonempty:
  assumes "flight_table s \<noteq> []"
  shows "add_default_flights s = s"
  using assms by (simp add: add_default_flights_def first_flight_def split: list.splits)

lemma index_again:
  assumes "add_default_flights t = t"
  shows "index t = (t, Render (Index_html (flight_table t)))"
  using assms by (simp add: index_def)

text \<open>
  C6: on an empty flight table the home page view \<open>index\<close> stores exactly the two seed
  flights, with the keys 1 and 2, and lists them; whenever the table holds a flight,
  \<open>add_default_flights\<close> changes nothing, so a second call of \<open>index\<close> lists the same
  two flights and leaves the state as it is.
\<close>

theorem seeding_idempotent:
  "(flight_table s = [] \<longrightarrow>
      index s = (s\<lparr>flight_table := add_all default_flights []\<rparr>,
                 Render (Index_html (add_all default_flights []))) \<and>
      length (add_all default_flights []) = 2 \<and>
      map id_flight (add_all default_flights []) = [1, 2] \<and>
      index (fst (index s)) = (fst (index s), Render (Index_html (add_all default_flights [])))) \<and>
   (flight_table s \<noteq> [] \<longrightarrow>
      add_default_flights s = s \<and> index s = (s, Render (Index_html (flight_table s))))"
proof (intro conjI impI)
  assume e: "flight_table s = []"
  show first: "index s = (s\<lparr>flight_table := add_all default_flights []\<rparr>,
                 Render (Index_html (add_all default_flights [])))"
    by (simp add: index_def add_default_flights_empty [OF e])
  show "length (add_all default_flights []) = 2" by (simp add: seeded_flights)
  show "map id_flight (add_all default_flights []) = [1, 2]" by (simp add: seeded_flights)
  have "flight_table (fst (index s)) \<noteq> []" by (simp add: first seeded_flights)
  then have "add_default_flights (fst (index s)) = fst (index s)"
    by (rule add_default_flights_nonempty)
  moreover have "flight_table (fst (index s)) = add_all default_flights []"
    by (simp add: first)
  ultimately show "index (fst (index s))
      = (fst (index s), Render (Index_html (add_all default_flights [])))"
    by (simp add: index_again)
next
  assume n: "flight_table s \<noteq> []"
  show "add_default_flights s = s" by (rule add_default_flights_nonempty [OF n])
  then show "index s = (s, Render (Index_html (flight_table s)))" by (simp add: index_def)
qed

theorem seeding_idempotent_witness:
  "flight_table empty_state = [] \<and>
   index empty_state = (empty_state\<lparr>flight_table := add_all default_flights []\<rparr>,
                        Render (Index_html (add_all default_flights []))) \<and>
   length (flight_table (fst (index empty_state))) = 2 \<and>
   index (fst (index empty_state))
     = (fst (index empty_state), Render (Index_html (add_all default_flights []))) \<and>
   flight_table demo_state \<noteq> [] \<and>
   add_default_flights demo_state = demo_state"
proof -
  have e: "flight_table empty_state = []" by (simp add: empty_state_def)
  have n: "flight_table demo_state \<noteq> []" by (simp add: demo_flights seeded_flights)
  from seeding_idempotent [of empty_state] e
  have first: "index empty_state = (empty_state\<lparr>flight_table := add_all default_flights []\<rparr>,
                        Render (Index_html (add_all default_flights [])))"
    and two: "length (add_all default_flights []) = 2"
    and again: "index (fst (index empty_state))
      = (fst (index empty_state), Render (Index_html (add_all default_flights [])))"
    by blast+
  from first two have len: "length (flight_table (fst (index empty_state))) = 2" by simp
  from seeding_idempotent [of demo_state] n
  have same: "add_default_flights demo_state = demo_state" by blast
  from e first len again n same show ?thesis by (intro conjI)
qed

section \<open>The duration of a flight\<close>

lemma sdiv_nonneg:
  assumes "0 \<le> (k::int)" and "0 < l"
  shows "k sdiv l = k div l" and "k smod l = k mod l"
  using assms by (simp_all add: signed_divide_int_def signed_modulo_int_def sgn_if)

lemma minutes_bounds:
  fixes secs :: int
  shows "0 \<le> (secs mod 3600) div 60" and "(secs mod 3600) div 60 < 60"
    and "(secs div 3600) * 3600 + ((secs mod 3600) div 60) * 60 \<le> secs"
    and "secs < (secs div 3600) * 3600 + ((secs mod 3600) div 60) * 60 + 60"
proof -
  define r where "r = secs mod 3600"
  have r: "0 \<le> r" "r < 3600" and whole: "(secs div 3600) * 3600 + r = secs"
    by (simp_all add: r_def)
  have split: "r = (r div 60) * 60 + r mod 60" by simp
  have rest: "0 \<le> r mod 60" "r mod 60 < 60" by simp_all
  from r show "0 \<le> (secs mod 3600) div 60" by (simp add: r_def)
  from split rest r show "(secs mod 3600) div 60 < 60" unfolding r_def by linarith
  from split rest whole
  show "(secs div 3600) * 3600 + ((secs mod 3600) div 60) * 60 \<le> secs"
    unfolding r_def by linarith
  from split rest whole
  show "secs < (secs div 3600) * 3600 + ((secs mod 3600) div 60) * 60 + 60"
    unfolding r_def by linarith
qed

lemma flight_details_found:
  assumes "get_flight s fid = Some fl"
  shows "flight_details fid s =
           (s, Render (Flight_details_html fl
                 (total_seconds (arrival_datetime fl) (departure_datetime fl) div 3600)
                 ((total_seconds (arrival_datetime fl) (departure_datetime fl) mod 3600) div 60)))"
  using get_flight_or_404_Some [OF assms] by (simp add: flight_details_def Let_def)

lemma backwards_seconds:
  "total_seconds (arrival_datetime backwards_flight) (departure_datetime backwards_flight) = - 1800"
  by (simp add: backwards_flight_def mk_datetime_def total_seconds_def toordinal_def)

text \<open>
  C8: the specification speaks of a division that truncates toward zero, but \<open>//\<close> and \<open>%\<close>
  round toward minus infinity: for a flight that arrives 1800 seconds before it leaves,
  \<open>flight_details\<close> shows -1 hours and 30 minutes, where truncation gives 0 and -30.
\<close>

theorem flight_details_floor_counterexample:
  "flight_details 1 backwards_state
     = (backwards_state, Render (Flight_details_html backwards_flight (- 1) 30)) \<and>
   spec_duration_hours
     (total_seconds (arrival_datetime backwards_flight) (departure_datetime backwards_flight)) = 0 \<and>
   spec_duration_minutes
     (total_seconds (arrival_datetime backwards_flight) (departure_datetime backwards_flight)) = - 30"
proof -
  have "get_flight backwards_state 1 = Some backwards_flight"
    by (simp add: get_flight_def sqlite_integer_def backwards_state_def empty_state_def backwards_flight_def)
  then have "flight_details 1 backwards_state
     = (backwards_state, Render (Flight_details_html backwards_flight (- 1) 30))"
    by (simp add: flight_details_found backwards_seconds)
  moreover have "spec_duration_hours (- 1800) = 0" "spec_duration_minutes (- 1800) = - 30"
    by (simp_all add: spec_duration_hours_def spec_duration_minutes_def
        signed_divide_int_def signed_modulo_int_def)
  ultimately show ?thesis by (simp add: backwards_seconds)
qed

text \<open>
  C8, amended: for every stored flight, \<open>flight_details\<close> shows the flight with
  hours = secs div 3600 and minutes = (secs mod 3600) div 60, where secs is the whole number
  of seconds from departure to arrival and div and mod round toward minus infinity (Python's
  \<open>//\<close> and \<open>%\<close>). The minutes are between 0 and 59, and hours and minutes together
  never exceed the elapsed time and fall short of it by less than a minute (nothing is
  rounded up). When the arrival is not before the departure, this is the division that
  truncates toward zero.
\<close>

theorem flight_details_duration:
  assumes "get_flight s fid = Some fl"
    and "secs = total_seconds (arrival_datetime fl) (departure_datetime fl)"
  shows "flight_details fid s =
           (s, Render (Flight_details_html fl (secs div 3600) ((secs mod 3600) div 60))) \<and>
         0 \<le> (secs mod 3600) div 60 \<and> (secs mod 3600) div 60 < 60 \<and>
         (secs div 3600) * 3600 + ((secs mod 3600) div 60) * 60 \<le> secs \<and>
         secs < (secs div 3600) * 3600 + ((secs mod 3600) div 60) * 60 + 60 \<and>
         (0 \<le> secs \<longrightarrow>
            secs div 3600 = spec_duration_hours secs \<and>
            (secs mod 3600) div 60 = spec_duration_minutes secs)"
proof -
  have "flight_details fid s =
          (s, Render (Flight_details_html fl (secs div 3600) ((secs mod 3600) div 60)))"
    using flight_details_found [OF assms(1)] assms(2) by simp
  moreover have "secs div 3600 = spec_duration_hours secs \<and>
                 (secs mod 3600) div 60 = spec_duration_minutes secs" if "0 \<le> secs"
  proof -
    have "0 \<le> secs mod 3600" by simp
    with that show ?thesis
      by (simp add: spec_duration_hours_def spec_duration_minutes_def sdiv_nonneg)
  qed
  ultimately show ?thesis using minutes_bounds [of secs] by blast
qed

theorem flight_details_duration_witness:
  "get_flight demo_state 1 = Some (hd (flight_table demo_state)) \<and>
   total_seconds (arrival_datetime (hd (flight_table demo_state)))
     (departure_datetime (hd (flight_table demo_state))) = 5400 \<and>
   flight_details 1 demo_state
     = (demo_state, Render (Flight_details_html (hd (flight_table demo_state)) 1 30)) \<and>
   spec_duration_hours 5400 = 1 \<and> spec_duration_minutes 5400 = 30"
proof -
  have fl: "get_flight demo_state 1 = Some (hd (flight_table demo_state))"
    by (simp add: get_flight_def sqlite_integer_def demo_flights seeded_flights)
  have secs: "5400 = total_seconds (arrival_datetime (hd (flight_table demo_state)))
     (departure_datetime (hd (flight_table demo_state)))"
    by (simp add: demo_flights seeded_flights mk_datetime_def total_seconds_def toordinal_def)
  from flight_details_duration [OF fl secs]
  have "flight_details 1 demo_state
     = (demo_state, Render (Flight_details_html (hd (flight_table demo_state)) 1 30))"
    and "spec_duration_hours 5400 = 1" and "spec_duration_minutes 5400 = 30"
    by simp_all
  with fl secs show ?thesis by simp
qed

section \<open>The allow-list of upload extensions\<close>

lemma rsplit_dot_1_append:
  assumes "CHR ''.'' \<notin> set ext"
  shows "rsplit_dot_1 (stem @ CHR ''.'' # ext) = ext"
proof -
  have "takeWhile (\<lambda>c. c \<noteq> CHR ''.'') (rev ext @ CHR ''.'' # rev stem) = rev ext"
    using assms by (subst takeWhile_append2) auto
  then show ?thesis by (simp add: rsplit_dot_1_def)
qed

text \<open>
  What \<open>allowed_file\<close> decides: a name is allowed exactly when it has a dot and the
  text after its last dot is png, jpg or jpeg in any mix of upper and lower case.
\<close>

lemma allowed_file_iff:
  "allowed_file filename \<longleftrightarrow>
     (\<exists>stem ext. filename = stem @ CHR ''.'' # ext \<and> CHR ''.'' \<notin> set ext \<and>
        lower ext \<in> {''png'', ''jpg'', ''jpeg''})"
proof
  assume a: "allowed_file filename"
  then have "CHR ''.'' \<in> set filename" by (simp add: allowed_file_def)
  then obtain stem ext where f: "filename = stem @ CHR ''.'' # ext" "CHR ''.'' \<notin> set ext"
    by (auto dest: split_list_last)
  with a have "lower ext \<in> {''png'', ''jpg'', ''jpeg''}"
    by (simp add: allowed_file_def rsplit_dot_1_append ALLOWED_EXTENSIONS_def)
  with f show "\<exists>stem ext. filename = stem @ CHR ''.'' # ext \<and> CHR ''.'' \<notin> set ext \<and>
        lower ext \<in> {''png'', ''jpg'', ''jpeg''}" by blast
next
  assume "\<exists>stem ext. filename = stem @ CHR ''.'' # ext \<and> CHR ''.'' \<notin> set ext \<and>
        lower ext \<in> {''png'', ''jpg'', ''jpeg''}"
  then obtain stem ext where "filename = stem @ CHR ''.'' # ext" "CHR ''.'' \<notin> set ext"
    "lower ext \<in> {''png'', ''jpg'', ''jpeg''}" by blast
  then show "allowed_file filename"
    by (simp add: allowed_file_def rsplit_dot_1_append ALLOWED_EXTENSIONS_def)
qed

text \<open>
  The only entry of \<open>form_overrides\<close> is keyed on \<open>image_path\<close>, which is no column
  of Flight or Booking: no column of a model in the admin panel gets an ImageUploadField,
  the \<open>image\<close> column of Flight is a plain text field, and no view calls
  \<open>allowed_file\<close>. The admin panel of app.py therefore has no upload field on which the
  allow-list could act.
\<close>

lemma form_overrides_reach_no_column:
  "map_of form_overrides ''image'' = None \<and>
   filter (\<lambda>c. map_of form_overrides c = Some ImageUploadField)
     (Flight_columns @ Booking_columns) = []"
  by (simp add: form_overrides_def Flight_columns_def Booking_columns_def)

lemma allowed_file_examples:
  "\<not> allowed_file ''static/uploads/shell.php'' \<and> allowed_file ''static/uploads/photo.JPG''"
  by (simp add: allowed_file_def rsplit_dot_1_def lower_def lower_char_def
      ALLOWED_EXTENSIONS_def)

end
